theory Spec2Isabelle
  imports Main "HOL-Library.Word"
begin

section \<open>The simple platform driver (simple.c)\<close>

text \<open>
  The driver registers a misc character device whose \<open>read\<close> and \<open>write\<close> callbacks
  transfer one byte between user space and the byte-wide register mapped at
  \<open>priv->addr\<close>. The kernel services it calls (\<open>ioread8\<close>, \<open>iowrite8\<close>,
  \<open>copy_to_user\<close>, \<open>copy_from_user\<close>, \<open>devm_kzalloc\<close>, \<open>devm_ioremap_resource\<close>,
  \<open>misc_register\<close>, \<open>misc_deregister\<close>) are its environment: they act on an explicit
  state, and every call is recorded in a trace, so that the number and the order of
  hardware accesses can be stated.
\<close>

subsection \<open>Machine types and constants\<close>

text \<open>
  Pointers and \<open>size_t\<close> are machine words of the width of \<open>unsigned long\<close>; the 32 bits of
  the Xilinx soft-core and Zynq targets are taken here. A register byte and a \<open>char\<close> are
  8-bit words: the conversions between \<open>u8\<close> and \<open>char\<close> keep all eight bits.
  \<open>ssize_t\<close> and \<open>int\<close> results are small signed values, modelled as \<open>int\<close>.
\<close>

type_synonym ptr = "32 word"
type_synonym size_t = "32 word"
type_synonym u8 = "8 word"

definition NULL :: ptr where
  "NULL = 0"

definition ENOMEM :: int where
  "ENOMEM = 12"

definition EBUSY :: int where
  "EBUSY = 16"

definition EINVAL :: int where
  "EINVAL = 22"

definition MAX_ERRNO :: int where
  "MAX_ERRNO = 4095"

definition MISC_DYNAMIC_MINOR :: int where
  "MISC_DYNAMIC_MINOR = 255"

definition DRIVER_NAME :: string where
  "DRIVER_NAME = ''simple''"

text \<open>
  \<open>ERR_PTR\<close> casts a negative errno to a pointer; \<open>IS_ERR\<close> recognises the pointers in the
  last \<open>MAX_ERRNO\<close> addresses (\<open>(unsigned long)p >= (unsigned long)-MAX_ERRNO\<close>).
\<close>

definition ERR_PTR :: "int \<Rightarrow> ptr" where
  "ERR_PTR e = word_of_int e"

definition IS_ERR :: "ptr \<Rightarrow> bool" where
  "IS_ERR p = (word_of_int (- MAX_ERRNO) \<le> p)"

subsection \<open>The private struct\<close>

datatype fops_table = no_fops | simple_fops

record miscdevice =
  minor :: int
  name :: string
  fops :: fops_table

record simple_private =
  miscdev :: miscdevice
  addr :: ptr

text \<open>The struct as \<open>devm_kzalloc\<close> hands it out: every field zero.\<close>

definition zeroed_private :: simple_private where
  "zeroed_private = \<lparr>miscdev = \<lparr>minor = 0, name = [], fops = no_fops\<rparr>, addr = NULL\<rparr>"

subsection \<open>Register and user memory\<close>

text \<open>
  A user address is unmapped, mapped read-only or mapped read-write. The register window
  is plain memory: a byte per address.
\<close>

datatype ucell = Unmapped | ReadOnly u8 | ReadWrite u8

datatype io_event =
    EvIoread8 ptr u8
  | EvIowrite8 u8 ptr
  | EvCopyToUser ptr nat
  | EvCopyFromUser ptr nat

record io_state =
  iomem :: "ptr \<Rightarrow> u8"
  umem :: "ptr \<Rightarrow> ucell"
  iotrace :: "io_event list"

fun is_hw_access :: "io_event \<Rightarrow> bool" where
  "is_hw_access (EvIoread8 a v) = True"
| "is_hw_access (EvIowrite8 v a) = True"
| "is_hw_access (EvCopyToUser a n) = False"
| "is_hw_access (EvCopyFromUser a n) = False"

definition hw_accesses :: "io_event list \<Rightarrow> io_event list" where
  "hw_accesses tr = filter is_hw_access tr"

fun user_writable :: "ucell \<Rightarrow> bool" where
  "user_writable (ReadWrite b) = True"
| "user_writable (ReadOnly b) = False"
| "user_writable Unmapped = False"

fun user_readable :: "ucell \<Rightarrow> bool" where
  "user_readable (ReadWrite b) = True"
| "user_readable (ReadOnly b) = True"
| "user_readable Unmapped = False"

fun ucell_byte :: "ucell \<Rightarrow> u8" where
  "ucell_byte (ReadWrite b) = b"
| "ucell_byte (ReadOnly b) = b"
| "ucell_byte Unmapped = 0"

text \<open>\<open>ioread8(addr)\<close>: one 8-bit load from the register window.\<close>

definition ioread8 :: "ptr \<Rightarrow> io_state \<Rightarrow> u8 \<times> io_state" where
  "ioread8 a s = (iomem s a, s\<lparr>iotrace := iotrace s @ [EvIoread8 a (iomem s a)]\<rparr>)"

text \<open>\<open>iowrite8(value, addr)\<close>: one 8-bit store to the register window.\<close>

definition iowrite8 :: "u8 \<Rightarrow> ptr \<Rightarrow> io_state \<Rightarrow> io_state" where
  "iowrite8 v a s = s\<lparr>iomem := (iomem s)(a := v), iotrace := iotrace s @ [EvIowrite8 v a]\<rparr>"

text \<open>
  \<open>copy_to_user(to, &data, 1)\<close> and \<open>copy_from_user(&data, from, 1)\<close>, the only
  transfers the driver makes: one byte. The result is the number of bytes that could not
  be copied, 0 or 1; the trace keeps it. A failed \<open>copy_from_user\<close> leaves a zero byte
  in the destination.
\<close>

definition copy_to_user :: "ptr \<Rightarrow> u8 \<Rightarrow> io_state \<Rightarrow> nat \<times> io_state" where
  "copy_to_user to d s =
     (if user_writable (umem s to)
      then (0, s\<lparr>umem := (umem s)(to := ReadWrite d),
                 iotrace := iotrace s @ [EvCopyToUser to 0]\<rparr>)
      else (1, s\<lparr>iotrace := iotrace s @ [EvCopyToUser to 1]\<rparr>))"

definition copy_from_user :: "ptr \<Rightarrow> io_state \<Rightarrow> nat \<times> u8 \<times> io_state" where
  "copy_from_user from s =
     (if user_readable (umem s from)
      then (0, ucell_byte (umem s from), s\<lparr>iotrace := iotrace s @ [EvCopyFromUser from 0]\<rparr>)
      else (1, 0, s\<lparr>iotrace := iotrace s @ [EvCopyFromUser from 1]\<rparr>))"

subsection \<open>File operations\<close>

text \<open>
  The \<open>priv\<close> argument is \<open>miscdev_to_simple(filp->private_data)\<close>, the instance that
  owns the opened misc device; \<open>f_pos\<close> is never touched.
\<close>

definition simplemisc_open :: int where
  "simplemisc_open = 0"

definition simplemisc_release :: int where
  "simplemisc_release = 0"

definition simplemisc_read ::
  "simple_private \<Rightarrow> ptr \<Rightarrow> size_t \<Rightarrow> io_state \<Rightarrow> int \<times> io_state" where
  "simplemisc_read priv buf count s =
     (if count = 0 then (0, s)
      else
        (let (data, s1) = ioread8 (addr priv) s;
             (r, s2) = copy_to_user buf data s1
         in if r = 1 then (0, s2) else (1, s2)))"

definition simplemisc_write ::
  "simple_private \<Rightarrow> ptr \<Rightarrow> size_t \<Rightarrow> io_state \<Rightarrow> int \<times> io_state" where
  "simplemisc_write priv buf count s =
     (if count = 0 then (0, s)
      else
        (let (r, data, s1) = copy_from_user buf s
         in if r = 1 then (0, s1)
            else (1, iowrite8 data (addr priv) s1)))"

section \<open>Binding and unbinding\<close>

text \<open>
  The state the lifecycle functions act on: the device's driver data pointer, the
  resources the \<open>devm_\<close> calls have attached to the device (in the order acquired), the
  kernel memory holding the private structs, the misc devices currently registered (each
  known by the address of its \<open>struct miscdevice\<close>, which is the first member of
  \<open>struct simple_private\<close> and so has the address of the private struct), and the trace of
  kernel calls.
\<close>

datatype devres_entry = DevresKzalloc ptr | DevresIoremap ptr

datatype kevent =
    EvDevmKzalloc ptr
  | EvDevmIoremapResource ptr
  | EvDevErr string
  | EvMiscRegister ptr int
  | EvMiscDeregister ptr
  | EvIounmap ptr
  | EvKfree ptr

datatype fault = NullPointerDereference

record kernel_state =
  drvdata :: ptr
  devres :: "devres_entry list"
  heap :: "ptr \<rightharpoonup> simple_private"
  misc_list :: "ptr set"
  ktrace :: "kevent list"

text \<open>
  What the kernel answers during one probe: the pointer \<open>devm_kzalloc\<close> returns (NULL
  when out of memory), the pointer \<open>devm_ioremap_resource\<close> returns for the resource
  that \<open>platform_get_resource(pdev, IORESOURCE_MEM, 0)\<close> found, and the result of
  \<open>misc_register\<close> (0 or a negative errno).
\<close>

record probe_env =
  kzalloc_ret :: ptr
  ioremap_ret :: ptr
  misc_register_ret :: int

definition devm_kzalloc :: "probe_env \<Rightarrow> kernel_state \<Rightarrow> ptr \<times> kernel_state" where
  "devm_kzalloc env s =
     (let p = kzalloc_ret env
      in if p = NULL then (NULL, s\<lparr>ktrace := ktrace s @ [EvDevmKzalloc NULL]\<rparr>)
         else (p, s\<lparr>devres := devres s @ [DevresKzalloc p],
                     heap := (heap s)(p \<mapsto> zeroed_private),
                     ktrace := ktrace s @ [EvDevmKzalloc p]\<rparr>))"

text \<open>
  \<open>devm_ioremap_resource\<close> returns the mapped address, or on failure an error pointer
  \<open>ERR_PTR(-EINVAL)\<close>, \<open>ERR_PTR(-EBUSY)\<close> or \<open>ERR_PTR(-ENOMEM)\<close>. The environment
  may answer any pointer here, NULL too, which is what the driver tests for. A mapping
  is attached to the device only when the answer is a usable address.
\<close>

definition devm_ioremap_resource :: "probe_env \<Rightarrow> kernel_state \<Rightarrow> ptr \<times> kernel_state" where
  "devm_ioremap_resource env s =
     (let a = ioremap_ret env
      in if a = NULL \<or> IS_ERR a then (a, s\<lparr>ktrace := ktrace s @ [EvDevmIoremapResource a]\<rparr>)
         else (a, s\<lparr>devres := devres s @ [DevresIoremap a],
                     ktrace := ktrace s @ [EvDevmIoremapResource a]\<rparr>))"

definition dev_err :: "string \<Rightarrow> kernel_state \<Rightarrow> kernel_state" where
  "dev_err msg s = s\<lparr>ktrace := ktrace s @ [EvDevErr msg]\<rparr>"

definition store_private :: "ptr \<Rightarrow> simple_private \<Rightarrow> kernel_state \<Rightarrow> kernel_state" where
  "store_private p v s = s\<lparr>heap := (heap s)(p \<mapsto> v)\<rparr>"

definition platform_set_drvdata :: "ptr \<Rightarrow> kernel_state \<Rightarrow> kernel_state" where
  "platform_set_drvdata p s = s\<lparr>drvdata := p\<rparr>"

definition platform_get_drvdata :: "kernel_state \<Rightarrow> ptr" where
  "platform_get_drvdata s = drvdata s"

definition misc_register :: "probe_env \<Rightarrow> ptr \<Rightarrow> kernel_state \<Rightarrow> int \<times> kernel_state" where
  "misc_register env p s =
     (let r = misc_register_ret env
      in if r = 0
         then (0, s\<lparr>misc_list := insert p (misc_list s),
                     ktrace := ktrace s @ [EvMiscRegister p 0]\<rparr>)
         else (r, s\<lparr>ktrace := ktrace s @ [EvMiscRegister p r]\<rparr>))"

text \<open>
  \<open>misc_deregister\<close> reads the struct it is handed and unlinks it from the list of misc
  devices. A null pointer is a kernel fault and the call does not return. A struct that
  is not on the list (one whose \<open>misc_register\<close> failed) draws a warning only: the call
  returns and the list is as it was.
\<close>

definition misc_deregister :: "ptr \<Rightarrow> kernel_state \<Rightarrow> fault + kernel_state" where
  "misc_deregister p s =
     (if p = NULL then Inl NullPointerDereference
      else if p \<notin> misc_list s then Inr s
      else Inr (s\<lparr>misc_list := misc_list s - {p},
                   ktrace := ktrace s @ [EvMiscDeregister p]\<rparr>))"

subsection \<open>Probe and remove\<close>

definition simple_probe :: "probe_env \<Rightarrow> kernel_state \<Rightarrow> int \<times> kernel_state" where
  "simple_probe env s =
     (let (priv, s1) = devm_kzalloc env s
      in if priv = NULL
         then (- ENOMEM, dev_err ''Could not allocate private struct!'' s1)
         else
           (let (a, s2) = devm_ioremap_resource env s1;
                s3 = store_private priv (zeroed_private\<lparr>addr := a\<rparr>) s2
            in if a = NULL
               then (- ENOMEM, dev_err ''Could not map physical memory!'' s3)
               else
                 (let s4 = store_private priv
                             \<lparr>miscdev = \<lparr>minor = MISC_DYNAMIC_MINOR, name = DRIVER_NAME,
                                         fops = simple_fops\<rparr>,
                              addr = a\<rparr> s3;
                      s5 = platform_set_drvdata priv s4
                  in misc_register env priv s5)))"

definition simple_remove :: "kernel_state \<Rightarrow> fault + (int \<times> kernel_state)" where
  "simple_remove s =
     (let priv = platform_get_drvdata s
      in case misc_deregister priv s of
           Inl f \<Rightarrow> Inl f
         | Inr s1 \<Rightarrow> Inr (0, s1))"

subsection \<open>The driver core's side of an unbind\<close>

text \<open>
  The comments of \<open>simple_probe\<close> and \<open>simple_remove\<close> rely on the kernel to free what
  the \<open>devm_\<close> calls acquired "after the remove() function is called". That step is the
  driver core's: it calls the driver's remove callback, then releases the device's
  managed resources, last acquired first, and clears the driver data.
\<close>

fun release_event :: "devres_entry \<Rightarrow> kevent" where
  "release_event (DevresKzalloc p) = EvKfree p"
| "release_event (DevresIoremap a) = EvIounmap a"

fun release_entry ::
  "devres_entry \<Rightarrow> (ptr \<rightharpoonup> simple_private) \<Rightarrow> (ptr \<rightharpoonup> simple_private)" where
  "release_entry (DevresKzalloc p) h = h(p := None)"
| "release_entry (DevresIoremap a) h = h"

definition devres_release_all :: "kernel_state \<Rightarrow> kernel_state" where
  "devres_release_all s =
     s\<lparr>devres := [],
       heap := foldr release_entry (devres s) (heap s),
       ktrace := ktrace s @ map release_event (rev (devres s))\<rparr>"

definition device_release_driver :: "kernel_state \<Rightarrow> fault + kernel_state" where
  "device_release_driver s =
     (case simple_remove s of
        Inl f \<Rightarrow> Inl f
      | Inr (r, s1) \<Rightarrow> Inr ((devres_release_all s1)\<lparr>drvdata := NULL\<rparr>))"

text \<open>The kernel calls an unbind adds to the trace.\<close>

definition teardown_trace :: "kernel_state \<Rightarrow> kevent list" where
  "teardown_trace s =
     (case device_release_driver s of
        Inl f \<Rightarrow> []
      | Inr s2 \<Rightarrow> drop (length (ktrace s)) (ktrace s2))"

text \<open>
  A monitor over a trace: started with the endpoint published or not, it answers whether
  some mapping is released at a moment when the endpoint is published.
\<close>

fun released_while_published :: "bool \<Rightarrow> kevent list \<Rightarrow> bool" where
  "released_while_published pub [] = False"
| "released_while_published pub (EvMiscRegister p r # es) =
     released_while_published (pub \<or> r = 0) es"
| "released_while_published pub (EvMiscDeregister p # es) = released_while_published False es"
| "released_while_published pub (EvIounmap a # es) =
     (pub \<or> released_while_published pub es)"
| "released_while_published pub (e # es) = released_while_published pub es"

text \<open>
  A bound instance: the driver data points at a registered misc device whose private
  struct is in memory, and the mapping of its register is attached to the device.
\<close>

definition bound_instance :: "kernel_state \<Rightarrow> bool" where
  "bound_instance s =
     (drvdata s \<noteq> NULL \<and> drvdata s \<in> misc_list s \<and>
      (case heap s (drvdata s) of
         None \<Rightarrow> False
       | Some priv \<Rightarrow> DevresIoremap (addr priv) \<in> set (devres s)))"

subsection \<open>Example inputs\<close>

definition led_private :: simple_private where
  "led_private =
     \<lparr>miscdev = \<lparr>minor = MISC_DYNAMIC_MINOR, name = DRIVER_NAME, fops = simple_fops\<rparr>,
      addr = 0x40000000\<rparr>"

text \<open>
  A register holding \<open>0x5A\<close>; user memory with writable bytes at \<open>0x1000\<close> (holding
  \<open>0xAB\<close>) and \<open>0x1004\<close> (holding 0), a read-only byte at \<open>0x2000\<close> holding \<open>0x3C\<close>,
  and nothing else mapped.
\<close>

definition led_state :: io_state where
  "led_state =
     \<lparr>iomem = (\<lambda>a. 0)(0x40000000 := 0x5A),
      umem = (\<lambda>a. Unmapped)(0x1000 := ReadWrite 0xAB, 0x1004 := ReadWrite 0,
                             0x2000 := ReadOnly 0x3C),
      iotrace = []\<rparr>"

definition fresh_kernel :: kernel_state where
  "fresh_kernel =
     \<lparr>drvdata = NULL, devres = [], heap = Map.empty, misc_list = {}, ktrace = []\<rparr>"

text \<open>
  Six probes: everything succeeds; the allocation fails; the mapping comes back NULL;
  the register window is already claimed, so that the mapping comes back as
  \<open>ERR_PTR(-EBUSY)\<close>; no minor number is free, so that \<open>misc_register\<close> fails with
  \<open>-EBUSY\<close>; the device node cannot be allocated, so that it fails with \<open>-ENOMEM\<close>.
\<close>

definition good_env :: probe_env where
  "good_env = \<lparr>kzalloc_ret = 0xC0001000, ioremap_ret = 0xF0800000, misc_register_ret = 0\<rparr>"

definition no_memory_env :: probe_env where
  "no_memory_env = \<lparr>kzalloc_ret = NULL, ioremap_ret = 0xF0800000, misc_register_ret = 0\<rparr>"

definition null_mapping_env :: probe_env where
  "null_mapping_env = \<lparr>kzalloc_ret = 0xC0001000, ioremap_ret = NULL, misc_register_ret = 0\<rparr>"

definition busy_region_env :: probe_env where
  "busy_region_env =
     \<lparr>kzalloc_ret = 0xC0001000, ioremap_ret = ERR_PTR (- EBUSY), misc_register_ret = 0\<rparr>"

definition minor_busy_env :: probe_env where
  "minor_busy_env =
     \<lparr>kzalloc_ret = 0xC0001000, ioremap_ret = 0xF0800000, misc_register_ret = - EBUSY\<rparr>"

definition register_no_memory_env :: probe_env where
  "register_no_memory_env =
     \<lparr>kzalloc_ret = 0xC0001000, ioremap_ret = 0xF0800000, misc_register_ret = - ENOMEM\<rparr>"

definition bound_kernel :: kernel_state where
  "bound_kernel = snd (simple_probe good_env fresh_kernel)"

section \<open>Properties of read and write\<close>

text \<open>
  C1. A read or a write request of length 0 returns 0 bytes transferred and leaves the
  whole state as it was: the register is neither loaded nor stored, no byte crosses the
  user/kernel boundary, and the trace of calls gains no entry.
\<close>

theorem zero_length_request_is_noop:
  "simplemisc_read priv buf 0 s = (0, s) \<and> simplemisc_write priv buf 0 s = (0, s)"
  by (simp add: simplemisc_read_def simplemisc_write_def)

text \<open>
  C2. A request of any non-zero length whose one-byte copy succeeds (the user byte is
  writable for a read, readable for a write) returns 1 and adds exactly one hardware
  access to the trace: one 8-bit load from, or one 8-bit store to, the mapped register.
\<close>

theorem nonzero_request_transfers_one_byte:
  assumes "count \<noteq> 0"
  shows "(user_writable (umem s buf) \<longrightarrow>
            fst (simplemisc_read priv buf count s) = 1 \<and>
            hw_accesses (iotrace (snd (simplemisc_read priv buf count s))) =
              hw_accesses (iotrace s) @ [EvIoread8 (addr priv) (iomem s (addr priv))]) \<and>
         (user_readable (umem s buf) \<longrightarrow>
            fst (simplemisc_write priv buf count s) = 1 \<and>
            hw_accesses (iotrace (snd (simplemisc_write priv buf count s))) =
              hw_accesses (iotrace s) @ [EvIowrite8 (ucell_byte (umem s buf)) (addr priv)])"
  using assms
  by (simp add: simplemisc_read_def simplemisc_write_def ioread8_def iowrite8_def
      copy_to_user_def copy_from_user_def hw_accesses_def)

text \<open>A request for 7 bytes at the writable user byte \<open>0x1000\<close>: one access, one byte.\<close>

theorem nonzero_request_transfers_one_byte_witness:
  "(7 :: size_t) \<noteq> 0 \<and> user_writable (umem led_state 0x1000) \<and>
   user_readable (umem led_state 0x1000) \<and>
   fst (simplemisc_read led_private 0x1000 7 led_state) = 1 \<and>
   hw_accesses (iotrace (snd (simplemisc_read led_private 0x1000 7 led_state))) =
     [EvIoread8 0x40000000 0x5A] \<and>
   fst (simplemisc_write led_private 0x1000 7 led_state) = 1 \<and>
   hw_accesses (iotrace (snd (simplemisc_write led_private 0x1000 7 led_state))) =
     [EvIowrite8 0xAB 0x40000000]"
  using nonzero_request_transfers_one_byte [of 7 led_state "0x1000" led_private]
  by (simp add: led_state_def led_private_def hw_accesses_def)

text \<open>
  C3. A request of non-zero length whose copy across the user/kernel boundary fails
  returns 0, the count of bytes transferred, and so no negative error code: a read whose
  destination byte is not writable, a write whose source byte is not readable.
\<close>

theorem failed_copy_reports_zero_bytes:
  assumes "count \<noteq> 0"
  shows "(\<not> user_writable (umem s buf) \<longrightarrow> fst (simplemisc_read priv buf count s) = 0) \<and>
         (\<not> user_readable (umem s buf) \<longrightarrow> fst (simplemisc_write priv buf count s) = 0)"
  using assms
  by (simp add: simplemisc_read_def simplemisc_write_def ioread8_def iowrite8_def
      copy_to_user_def copy_from_user_def)

text \<open>A read into the read-only byte \<open>0x2000\<close>, a write from the unmapped \<open>0x3000\<close>.\<close>

theorem failed_copy_reports_zero_bytes_witness:
  "(1 :: size_t) \<noteq> 0 \<and> \<not> user_writable (umem led_state 0x2000) \<and>
   \<not> user_readable (umem led_state 0x3000) \<and>
   fst (simplemisc_read led_private 0x2000 1 led_state) = 0 \<and>
   fst (simplemisc_write led_private 0x3000 1 led_state) = 0"
  using failed_copy_reports_zero_bytes [of 1 led_state "0x2000" led_private]
    failed_copy_reports_zero_bytes [of 1 led_state "0x3000" led_private]
  by (simp add: led_state_def)

text \<open>
  C4. Round trip through the register as a plain memory byte: after a write that
  succeeded (it returned 1) with the byte \<open>v\<close> at its source, the next read on the same
  instance into a writable user byte returns 1, loads \<open>v\<close> from the register and leaves
  \<open>v\<close> in the destination.
\<close>

theorem write_then_read_round_trip:
  assumes "simplemisc_write priv src n s = (1, s1)"
    and "ucell_byte (umem s src) = v"
    and "m \<noteq> 0"
    and "user_writable (umem s1 dst)"
  shows "fst (simplemisc_read priv dst m s1) = 1 \<and>
         umem (snd (simplemisc_read priv dst m s1)) dst = ReadWrite v \<and>
         iotrace (snd (simplemisc_read priv dst m s1)) =
           iotrace s1 @ [EvIoread8 (addr priv) v, EvCopyToUser dst 0]"
  using assms
  by (auto simp add: simplemisc_read_def simplemisc_write_def ioread8_def iowrite8_def
      copy_to_user_def copy_from_user_def split: if_splits)

text \<open>Writing the \<open>0xAB\<close> held at \<open>0x1000\<close>, then reading into \<open>0x1004\<close>.\<close>

theorem write_then_read_round_trip_witness:
  "simplemisc_write led_private 0x1000 1 led_state =
     (1, snd (simplemisc_write led_private 0x1000 1 led_state)) \<and>
   ucell_byte (umem led_state 0x1000) = 0xAB \<and> (1 :: size_t) \<noteq> 0 \<and>
   user_writable (umem (snd (simplemisc_write led_private 0x1000 1 led_state)) 0x1004) \<and>
   fst (simplemisc_read led_private 0x1004 1
          (snd (simplemisc_write led_private 0x1000 1 led_state))) = 1 \<and>
   umem (snd (simplemisc_read led_private 0x1004 1
          (snd (simplemisc_write led_private 0x1000 1 led_state)))) 0x1004 = ReadWrite 0xAB"
proof -
  have w: "simplemisc_write led_private 0x1000 1 led_state =
      (1, snd (simplemisc_write led_private 0x1000 1 led_state))"
    by (simp add: simplemisc_write_def copy_from_user_def led_state_def)
  have b: "ucell_byte (umem led_state 0x1000) = 0xAB"
    by (simp add: led_state_def)
  have d: "user_writable (umem (snd (simplemisc_write led_private 0x1000 1 led_state)) 0x1004)"
    by (simp add: simplemisc_write_def copy_from_user_def iowrite8_def led_state_def)
  have n: "(1 :: size_t) \<noteq> 0"
    by simp
  from write_then_read_round_trip [OF w b n d] w b n d show ?thesis
    by simp
qed

text \<open>
  C9. A write of non-zero length whose source byte cannot be read returns 0 and stores
  nothing: the register window is as before and the trace gains no hardware access.
\<close>

theorem failed_write_leaves_register:
  assumes "count \<noteq> 0" and "\<not> user_readable (umem s buf)"
  shows "fst (simplemisc_write priv buf count s) = 0 \<and>
         iomem (snd (simplemisc_write priv buf count s)) = iomem s \<and>
         hw_accesses (iotrace (snd (simplemisc_write priv buf count s))) =
           hw_accesses (iotrace s)"
  using assms by (simp add: simplemisc_write_def copy_from_user_def hw_accesses_def)

text \<open>A write of 3 bytes from the unmapped address \<open>0x3000\<close>.\<close>

theorem failed_write_leaves_register_witness:
  "(3 :: size_t) \<noteq> 0 \<and> \<not> user_readable (umem led_state 0x3000) \<and>
   fst (simplemisc_write led_private 0x3000 3 led_state) = 0 \<and>
   iomem (snd (simplemisc_write led_private 0x3000 3 led_state)) 0x40000000 = 0x5A \<and>
   hw_accesses (iotrace (snd (simplemisc_write led_private 0x3000 3 led_state))) = []"
  using failed_write_leaves_register [of 3 led_state "0x3000" led_private]
  by (simp add: led_state_def hw_accesses_def)

text \<open>
  C10. A read of non-zero length loads the register first and attempts the copy to user
  space second, whatever the copy's outcome; a read that returns 0 because the copy
  failed has therefore made exactly one hardware access.
\<close>

theorem read_loads_before_copy:
  assumes "count \<noteq> 0"
  shows "iotrace (snd (simplemisc_read priv buf count s)) =
           iotrace s @ [EvIoread8 (addr priv) (iomem s (addr priv)),
                        EvCopyToUser buf (if user_writable (umem s buf) then 0 else 1)] \<and>
         (\<not> user_writable (umem s buf) \<longrightarrow>
            fst (simplemisc_read priv buf count s) = 0 \<and>
            hw_accesses (iotrace (snd (simplemisc_read priv buf count s))) =
              hw_accesses (iotrace s) @ [EvIoread8 (addr priv) (iomem s (addr priv))])"
  using assms
  by (simp add: simplemisc_read_def ioread8_def copy_to_user_def hw_accesses_def)

text \<open>A read into the read-only byte \<open>0x2000\<close>: load, failed copy, result 0.\<close>

theorem read_loads_before_copy_witness:
  "(1 :: size_t) \<noteq> 0 \<and> \<not> user_writable (umem led_state 0x2000) \<and>
   iotrace (snd (simplemisc_read led_private 0x2000 1 led_state)) =
     [EvIoread8 0x40000000 0x5A, EvCopyToUser 0x2000 1] \<and>
   fst (simplemisc_read led_private 0x2000 1 led_state) = 0 \<and>
   hw_accesses (iotrace (snd (simplemisc_read led_private 0x2000 1 led_state))) =
     [EvIoread8 0x40000000 0x5A]"
  using read_loads_before_copy [of 1 led_private "0x2000" led_state]
  by (simp add: led_state_def led_private_def hw_accesses_def)

section \<open>Properties of binding and unbinding\<close>

lemma bound_kernel_eq:
  "bound_kernel =
     \<lparr>drvdata = 0xC0001000,
      devres = [DevresKzalloc 0xC0001000, DevresIoremap 0xF0800000],
      heap = [0xC0001000 \<mapsto> led_private\<lparr>addr := 0xF0800000\<rparr>],
      misc_list = {0xC0001000},
      ktrace = [EvDevmKzalloc 0xC0001000, EvDevmIoremapResource 0xF0800000,
                EvMiscRegister 0xC0001000 0]\<rparr>"
  by (simp add: bound_kernel_def simple_probe_def good_env_def fresh_kernel_def
      devm_kzalloc_def devm_ioremap_resource_def misc_register_def platform_set_drvdata_def
      store_private_def NULL_def IS_ERR_def MAX_ERRNO_def led_private_def zeroed_private_def)

text \<open>
  The branch of \<open>simple_probe\<close> that handles a failed mapping is taken when the mapping
  comes back NULL: the probe then returns \<open>-ENOMEM\<close>, registers nothing and does not set
  the driver data.
\<close>

lemma probe_null_mapping_detected:
  assumes "kzalloc_ret env \<noteq> NULL" and "ioremap_ret env = NULL"
  shows "fst (simple_probe env s) = - ENOMEM \<and>
         misc_list (snd (simple_probe env s)) = misc_list s \<and>
         drvdata (snd (simple_probe env s)) = drvdata s"
  using assms
  by (simp add: simple_probe_def devm_kzalloc_def devm_ioremap_resource_def dev_err_def
      store_private_def Let_def)

text \<open>
  C5. A bind attempt whose mapping fails should return the mapping error and publish no
  endpoint. The kernel reports the failure as an error pointer, which is not NULL, and
  \<open>simple_probe\<close> tests for NULL only: when the register window is already claimed
  (\<open>ERR_PTR(-EBUSY)\<close>, the pointer \<open>0xFFFFFFF0\<close>), the probe returns 0, has registered
  the misc device and set the driver data, and the instance's \<open>addr\<close> is the error
  pointer, with no mapping attached to the device.
\<close>

theorem probe_publishes_on_error_pointer:
  "IS_ERR (ioremap_ret busy_region_env) \<and>
   fst (simple_probe busy_region_env fresh_kernel) = 0 \<and>
   misc_list (snd (simple_probe busy_region_env fresh_kernel)) = {0xC0001000} \<and>
   drvdata (snd (simple_probe busy_region_env fresh_kernel)) = 0xC0001000 \<and>
   map_option addr (heap (snd (simple_probe busy_region_env fresh_kernel)) 0xC0001000) =
     Some 0xFFFFFFF0 \<and>
   devres (snd (simple_probe busy_region_env fresh_kernel)) = [DevresKzalloc 0xC0001000]"
  by (simp add: simple_probe_def busy_region_env_def fresh_kernel_def
      devm_kzalloc_def devm_ioremap_resource_def misc_register_def platform_set_drvdata_def
      store_private_def NULL_def IS_ERR_def ERR_PTR_def EBUSY_def MAX_ERRNO_def
      zeroed_private_def)

text \<open>
  C6, as the code has it. The failures \<open>simple_probe\<close> detects all reach the caller as
  a non-zero code, but not as distinct ones: a failed allocation and a mapping that came
  back NULL both return \<open>-ENOMEM\<close>, and once allocation and mapping have succeeded the
  result is that of \<open>misc_register\<close>, unchanged.
\<close>

theorem probe_failure_codes:
  "(kzalloc_ret env = NULL \<longrightarrow>
      fst (simple_probe env s) = - ENOMEM \<and> fst (simple_probe env s) \<noteq> 0) \<and>
   (kzalloc_ret env \<noteq> NULL \<and> ioremap_ret env = NULL \<longrightarrow>
      fst (simple_probe env s) = - ENOMEM \<and> fst (simple_probe env s) \<noteq> 0) \<and>
   (kzalloc_ret env \<noteq> NULL \<and> ioremap_ret env \<noteq> NULL \<and> \<not> IS_ERR (ioremap_ret env) \<longrightarrow>
      fst (simple_probe env s) = misc_register_ret env)"
  by (simp add: simple_probe_def devm_kzalloc_def devm_ioremap_resource_def dev_err_def
      store_private_def misc_register_def Let_def ENOMEM_def)

text \<open>The three failures, each on a fresh device: \<open>-12\<close>, \<open>-12\<close> and \<open>-16\<close>.\<close>

theorem probe_failure_codes_witness:
  "kzalloc_ret no_memory_env = NULL \<and>
   fst (simple_probe no_memory_env fresh_kernel) = - 12 \<and>
   kzalloc_ret null_mapping_env \<noteq> NULL \<and> ioremap_ret null_mapping_env = NULL \<and>
   fst (simple_probe null_mapping_env fresh_kernel) = - 12 \<and>
   kzalloc_ret minor_busy_env \<noteq> NULL \<and> ioremap_ret minor_busy_env \<noteq> NULL \<and>
   \<not> IS_ERR (ioremap_ret minor_busy_env) \<and>
   fst (simple_probe minor_busy_env fresh_kernel) = - 16"
  using probe_failure_codes [of no_memory_env fresh_kernel]
    probe_failure_codes [of null_mapping_env fresh_kernel]
    probe_failure_codes [of minor_busy_env fresh_kernel]
  by (simp add: no_memory_env_def null_mapping_env_def minor_busy_env_def NULL_def
      ENOMEM_def EBUSY_def IS_ERR_def MAX_ERRNO_def)

text \<open>
  Distinct causes, one code: the probe whose allocation fails, the probe whose mapping
  comes back NULL and the probe whose \<open>misc_register\<close> runs out of memory all return
  \<open>-12\<close>.
\<close>

theorem probe_allocation_and_mapping_share_code:
  "kzalloc_ret no_memory_env = NULL \<and>
   kzalloc_ret null_mapping_env \<noteq> NULL \<and> ioremap_ret null_mapping_env = NULL \<and>
   kzalloc_ret register_no_memory_env \<noteq> NULL \<and>
   ioremap_ret register_no_memory_env \<noteq> NULL \<and>
   \<not> IS_ERR (ioremap_ret register_no_memory_env) \<and>
   fst (simple_probe no_memory_env fresh_kernel) = - 12 \<and>
   fst (simple_probe null_mapping_env fresh_kernel) = - 12 \<and>
   fst (simple_probe register_no_memory_env fresh_kernel) = - 12"
  by (simp add: simple_probe_def no_memory_env_def null_mapping_env_def
      register_no_memory_env_def fresh_kernel_def devm_kzalloc_def devm_ioremap_resource_def
      misc_register_def platform_set_drvdata_def dev_err_def store_private_def NULL_def
      ENOMEM_def IS_ERR_def MAX_ERRNO_def)

lemma release_events_never_publish:
  "\<not> released_while_published False (map release_event es)"
proof (induction es)
  case Nil
  show ?case by simp
next
  case (Cons e es)
  then show ?case by (cases e) simp_all
qed

text \<open>
  C7. Unbinding a bound instance: \<open>simple_remove\<close> deregisters the endpoint, returns 0
  and leaves the mapping attached; the kernel calls of the whole unbind are the
  deregistration first and the releases of the managed resources after it, the unmapping
  of the instance's register among them; so at no moment of the teardown is a mapping
  released while the endpoint is published.
\<close>

theorem unbind_deregisters_before_unmapping:
  assumes "bound_instance s" and "heap s (drvdata s) = Some priv"
  shows "simple_remove s =
           Inr (0, s\<lparr>misc_list := misc_list s - {drvdata s},
                     ktrace := ktrace s @ [EvMiscDeregister (drvdata s)]\<rparr>) \<and>
         teardown_trace s = EvMiscDeregister (drvdata s) # map release_event (rev (devres s)) \<and>
         EvIounmap (addr priv) \<in> set (map release_event (rev (devres s))) \<and>
         \<not> released_while_published True (teardown_trace s)"
proof -
  from assms have reg: "drvdata s \<noteq> NULL" "drvdata s \<in> misc_list s"
    and held: "DevresIoremap (addr priv) \<in> set (devres s)"
    by (simp_all add: bound_instance_def)
  from reg have rem: "simple_remove s =
      Inr (0, s\<lparr>misc_list := misc_list s - {drvdata s},
                ktrace := ktrace s @ [EvMiscDeregister (drvdata s)]\<rparr>)"
    by (simp add: simple_remove_def misc_deregister_def platform_get_drvdata_def Let_def)
  then have tr: "teardown_trace s =
      EvMiscDeregister (drvdata s) # map release_event (rev (devres s))"
    by (simp add: teardown_trace_def device_release_driver_def devres_release_all_def)
  from held have "release_event (DevresIoremap (addr priv)) \<in> release_event ` set (devres s)"
    by (rule imageI)
  then have unm: "EvIounmap (addr priv) \<in> set (map release_event (rev (devres s)))"
    by simp
  have "\<not> released_while_published True (teardown_trace s)"
    by (simp add: tr release_events_never_publish)
  with rem tr unm show ?thesis by simp
qed

text \<open>The instance a successful probe of a fresh device leaves, unbound again.\<close>

theorem unbind_deregisters_before_unmapping_witness:
  "bound_instance bound_kernel \<and>
   heap bound_kernel (drvdata bound_kernel) = Some (led_private\<lparr>addr := 0xF0800000\<rparr>) \<and>
   teardown_trace bound_kernel =
     [EvMiscDeregister 0xC0001000, EvIounmap 0xF0800000, EvKfree 0xC0001000] \<and>
   \<not> released_while_published True (teardown_trace bound_kernel)"
proof -
  have b: "bound_instance bound_kernel"
    by (simp add: bound_kernel_eq bound_instance_def NULL_def)
  have h: "heap bound_kernel (drvdata bound_kernel) = Some (led_private\<lparr>addr := 0xF0800000\<rparr>)"
    by (simp add: bound_kernel_eq)
  from unbind_deregisters_before_unmapping [OF b h] b h show ?thesis
    by (simp add: bound_kernel_eq)
qed

text \<open>
  After a registration that failed, the driver data is set but the misc device is not on
  the list: \<open>simple_remove\<close> returns 0 there as well, with nothing deregistered.
\<close>

lemma remove_after_failed_registration:
  assumes "drvdata s \<noteq> NULL" and "drvdata s \<notin> misc_list s"
  shows "simple_remove s = Inr (0, s)"
  using assms
  by (simp add: simple_remove_def misc_deregister_def platform_get_drvdata_def Let_def)

text \<open>
  C8, as the code has it. \<open>simple_remove\<close> has no check for an unbound unit and no error
  result: whenever it returns, it returns 0; on a unit whose driver data is NULL it hands
  the null pointer to \<open>misc_deregister\<close> and faults instead of returning.
\<close>

theorem remove_never_rejects:
  "(simple_remove s = Inr (r, s') \<longrightarrow> r = 0) \<and>
   (drvdata s = NULL \<longrightarrow> simple_remove s = Inl NullPointerDereference)"
  by (auto simp add: simple_remove_def misc_deregister_def platform_get_drvdata_def Let_def
      split: if_splits)

text \<open>Removing the bound instance returns 0; removing on the fresh device faults.\<close>

theorem remove_never_rejects_witness:
  "simple_remove bound_kernel =
     Inr (0, bound_kernel\<lparr>misc_list := {},
                          ktrace := ktrace bound_kernel @ [EvMiscDeregister 0xC0001000]\<rparr>) \<and>
   drvdata fresh_kernel = NULL \<and>
   simple_remove fresh_kernel = Inl NullPointerDereference"
proof -
  have r: "simple_remove bound_kernel =
     Inr (0, bound_kernel\<lparr>misc_list := {},
                          ktrace := ktrace bound_kernel @ [EvMiscDeregister 0xC0001000]\<rparr>)"
    by (simp add: bound_kernel_eq simple_remove_def misc_deregister_def
        platform_get_drvdata_def NULL_def)
  have n: "drvdata fresh_kernel = NULL"
    by (simp add: fresh_kernel_def)
  from remove_never_rejects [of bound_kernel 0
      "bound_kernel\<lparr>misc_list := {},
                    ktrace := ktrace bound_kernel @ [EvMiscDeregister 0xC0001000]\<rparr>"]
    remove_never_rejects [of fresh_kernel] r n
  show ?thesis by simp
qed

text \<open>
  On a never-bound unit \<open>simple_remove\<close> returns nothing at all: no error code, and in
  particular no rejection that leaves the state as it was.
\<close>

theorem remove_on_unbound_unit_faults:
  "drvdata fresh_kernel = NULL \<and>
   simple_remove fresh_kernel = Inl NullPointerDereference \<and>
   (\<forall>e. simple_remove fresh_kernel \<noteq> Inr (e, fresh_kernel))"
  by (simp add: simple_remove_def misc_deregister_def platform_get_drvdata_def
      fresh_kernel_def)

end
